theory Spec2Isabelle
  imports Complex_Main "HOL-Library.Char_ord" "HOL-Library.List_Lexorder" "HOL-Library.Sublist"
begin

section \<open>Shared data model\<close>

text \<open>
  A path is the list of its components, as \<^verbatim>\<open>pathlib.Path.parts\<close> gives them. The
  file system is a partial map from paths to what \<^verbatim>\<open>stat\<close> reports for a regular file;
  a path with no entry does not exist. Timestamps are Python floats; they are modelled as
  reals, and no theorem below depends on how an addition or subtraction of them rounds.
\<close>

type_synonym path = "string list"

record file_stat =
  st_size :: int
  st_mtime :: real

type_synonym filesystem = "path \<rightharpoonup> file_stat"

datatype py_error = OSError | ValueError | KeyError | IndexError

text \<open>
  \<^verbatim>\<open>sorted(xs, key=k, reverse=r)\<close>: a stable sort on the keys. With \<^verbatim>\<open>reverse=True\<close> the
  order is descending and elements with equal keys still keep their input order, which is
  what reversing, sorting stably and reversing again yields.
\<close>

definition py_sorted :: "('a \<Rightarrow> 'k::linorder) \<Rightarrow> bool \<Rightarrow> 'a list \<Rightarrow> 'a list" where
  "py_sorted keyf reverse xs =
     (if reverse then rev (sort_key keyf (rev xs)) else sort_key keyf xs)"

text \<open>Indexing a list at 0, as in \<^verbatim>\<open>sorted_files[0]\<close>; the empty list raises.\<close>

fun item0 :: "'a list \<Rightarrow> py_error + 'a" where
  "item0 [] = Inl IndexError"
| "item0 (x # xs) = Inr x"

section \<open>Reference Selector\<close>

subsection \<open>Edge service: \<^verbatim>\<open>DirectoryScanner._select_reference_file\<close>\<close>

text \<open>
  The strategy is not an argument: the method reads \<^verbatim>\<open>settings.reference_strategy\<close>.
  The sort keys come from \<^verbatim>\<open>p.stat()\<close>, which raises \<^verbatim>\<open>OSError\<close> for a path
  that has vanished; \<^verbatim>\<open>sorted\<close> computes every key before it compares any.
\<close>

record settings =
  reference_strategy :: string
  min_file_age_seconds :: int
  aws_repair_api_base_url :: "string option"
  aws_fallback_retries :: int

definition sorted_by_stat ::
  "filesystem \<Rightarrow> (file_stat \<Rightarrow> 'k::linorder) \<Rightarrow> bool \<Rightarrow> path list \<Rightarrow> py_error + path list" where
  "sorted_by_stat fs field reverse ps =
     (if list_all (\<lambda>p. fs p \<noteq> None) ps
      then Inr (py_sorted (\<lambda>p. field (the (fs p))) reverse ps)
      else Inl OSError)"

text \<open>The common tail of the three branches: sort, then take element 0.\<close>

definition head_by_stat ::
  "filesystem \<Rightarrow> (file_stat \<Rightarrow> 'k::linorder) \<Rightarrow> bool \<Rightarrow> path list \<Rightarrow> py_error + path option" where
  "head_by_stat fs field reverse ps =
     (case sorted_by_stat fs field reverse ps of
        Inl e \<Rightarrow> Inl e
      | Inr sorted_files \<Rightarrow>
          (case item0 sorted_files of Inl e \<Rightarrow> Inl e | Inr p \<Rightarrow> Inr (Some p)))"

definition scanner_select_reference_file ::
  "settings \<Rightarrow> filesystem \<Rightarrow> path list \<Rightarrow> py_error + path option" where
  "scanner_select_reference_file cfg fs candidates =
     (if candidates = [] then Inr None
      else if length candidates = 1 then Inr None
      else if reference_strategy cfg = ''smallest''
        then head_by_stat fs st_size False candidates
      else if reference_strategy cfg = ''newest''
        then head_by_stat fs st_mtime True candidates
      else head_by_stat fs st_size False candidates)"

subsection \<open>Batch pipeline: \<^verbatim>\<open>select_reference_file\<close>\<close>

text \<open>
  One entry of \<^verbatim>\<open>list_video_files\<close>: the dictionary with the keys \<^verbatim>\<open>key\<close>,
  \<^verbatim>\<open>size\<close> and \<^verbatim>\<open>last_modified\<close> (an ISO-8601 string, compared as a string).
\<close>

record video_file =
  key :: string
  size_bytes :: int
  last_modified :: string

text \<open>Python truthiness of an \<^verbatim>\<open>Optional[str]\<close>: neither \<^verbatim>\<open>None\<close> nor empty.\<close>

definition truthy :: "string option \<Rightarrow> bool" where
  "truthy s = (case s of None \<Rightarrow> False | Some v \<Rightarrow> v \<noteq> [])"

definition head_key :: "video_file list \<Rightarrow> py_error + string option" where
  "head_key sorted_files =
     (case item0 sorted_files of Inl e \<Rightarrow> Inl e | Inr f \<Rightarrow> Inr (Some (key f)))"

definition select_reference_file ::
  "video_file list \<Rightarrow> string \<Rightarrow> string option \<Rightarrow> py_error + string option" where
  "select_reference_file files strategy explicit_ref =
     (if truthy explicit_ref \<and> list_ex (\<lambda>f. Some (key f) = explicit_ref) files
        then Inr explicit_ref
      else if files = [] then Inr None
      else if strategy = ''smallest''
        then head_key (py_sorted size_bytes False files)
      else if strategy = ''newest''
        then head_key (py_sorted last_modified True files)
      else head_key (py_sorted size_bytes False files))"

text \<open>
  The part of \<^verbatim>\<open>handle_submit_batch\<close> around the selection: the handler answers 400
  for an empty listing and for a listing of fewer than two files before it calls the
  selector, and 400 again when the selector's result is falsy. Otherwise the repair
  targets are the keys of all files whose key differs from the reference.
\<close>

datatype submit_error =
  NoVideoFiles | NeedTwoFiles nat | NoReference | SelectorRaised py_error

definition submit_batch_selection ::
  "video_file list \<Rightarrow> string \<Rightarrow> string option \<Rightarrow> submit_error + string \<times> string list" where
  "submit_batch_selection video_files strategy explicit_reference =
     (if video_files = [] then Inl NoVideoFiles
      else if length video_files < 2 then Inl (NeedTwoFiles (length video_files))
      else (case select_reference_file video_files strategy explicit_reference of
              Inl e \<Rightarrow> Inl (SelectorRaised e)
            | Inr reference_key \<Rightarrow>
                (case reference_key of
                   None \<Rightarrow> Inl NoReference
                 | Some r \<Rightarrow>
                     if r = [] then Inl NoReference
                     else Inr (r, map key (filter (\<lambda>f. key f \<noteq> r) video_files)))))"

subsection \<open>A sample batch\<close>

text \<open>
  Three clips of 100 MB, 10 MB and 50 MB, as a directory of the edge service and as an S3
  listing of the batch pipeline.
\<close>

definition sample_settings :: settings where
  "sample_settings =
     \<lparr>reference_strategy = ''smallest'', min_file_age_seconds = 60,
      aws_repair_api_base_url = None, aws_fallback_retries = 3\<rparr>"

definition sample_candidates :: "path list" where
  "sample_candidates = [[''ready'', ''a.mp4''], [''ready'', ''b.mp4''], [''ready'', ''c.mp4'']]"

definition sample_ready :: filesystem where
  "sample_ready =
     [[''ready'', ''a.mp4''] \<mapsto> \<lparr>st_size = 104857600, st_mtime = 1000\<rparr>,
      [''ready'', ''b.mp4''] \<mapsto> \<lparr>st_size = 10485760, st_mtime = 1200\<rparr>,
      [''ready'', ''c.mp4''] \<mapsto> \<lparr>st_size = 52428800, st_mtime = 1100\<rparr>]"

definition sample_listing :: "video_file list" where
  "sample_listing =
     [\<lparr>key = ''cam1/a.mp4'', size_bytes = 104857600, last_modified = ''2024-01-15T10:00:00+00:00''\<rparr>,
      \<lparr>key = ''cam1/b.mp4'', size_bytes = 10485760, last_modified = ''2024-01-15T10:20:00+00:00''\<rparr>,
      \<lparr>key = ''cam1/c.mp4'', size_bytes = 52428800, last_modified = ''2024-01-15T10:10:00+00:00''\<rparr>]"

section \<open>Resource Sizing Engine\<close>

subsection \<open>\<^verbatim>\<open>calculate_resources\<close>\<close>

text \<open>
  Byte counts are Python integers. \<^verbatim>\<open>total_bytes / (1024 ** 3)\<close> is a float; it is
  modelled as a rational. Both computations return the same resources for every byte
  count whose quotient is a finite float: below \<open>2^53\<close> bytes the division by \<open>2^30\<close>
  and the products with \<open>2\<close> and \<open>1024\<close> are exact, the product with \<open>3\<close> is
  exact below \<open>2^51\<close> bytes, and from there on both computations are past the last
  tier and at the caps. Python compares a float with an integer threshold exactly.
  \<^verbatim>\<open>int(x)\<close> truncates towards zero.
\<close>

definition RESOURCE_TIERS :: "(int \<times> int \<times> int \<times> int) list" where
  "RESOURCE_TIERS =
     [(5, 1, 2048, 30),
      (20, 2, 4096, 60),
      (50, 4, 8192, 120),
      (100, 4, 16384, 175),
      (200, 8, 30720, 200)]"

record resources =
  vcpu :: int
  memory :: int
  storage :: int

text \<open>
  The tier loop: the defaults \<open>(8, 30720, 200)\<close> stand unless a tier's \<^verbatim>\<open>max_gb\<close> is
  at least \<^verbatim>\<open>total_gb\<close>; the first such tier wins (\<^verbatim>\<open>break\<close>).
\<close>

fun find_tier :: "rat \<Rightarrow> (int \<times> int \<times> int \<times> int) list \<Rightarrow> int \<times> int \<times> int" where
  "find_tier total_gb [] = (8, 30720, 200)"
| "find_tier total_gb ((max_gb, v, m, s) # tiers) =
     (if total_gb \<le> of_int max_gb then (v, m, s) else find_tier total_gb tiers)"

definition py_int :: "rat \<Rightarrow> int" where
  "py_int x = (if 0 \<le> x then \<lfloor>x\<rfloor> else \<lceil>x\<rceil>)"

definition calculate_resources :: "int \<Rightarrow> int \<Rightarrow> resources" where
  "calculate_resources total_bytes largest_file_bytes =
     (let total_gb = of_int total_bytes / (1024 ^ 3);
          largest_gb = (if largest_file_bytes \<noteq> 0
                        then of_int largest_file_bytes / (1024 ^ 3) else 0);
          (tier_vcpu, tier_memory, tier_storage) = find_tier total_gb RESOURCE_TIERS;
          min_memory_for_largest = py_int (largest_gb * 2 * 1024);
          final_memory = max tier_memory min_memory_for_largest;
          min_storage_for_largest = py_int (largest_gb * 3) + 10;
          final_storage = max tier_storage min_storage_for_largest;
          final_memory = min final_memory 122880;
          final_storage = min final_storage 200
      in \<lparr>vcpu = tier_vcpu, memory = final_memory, storage = final_storage\<rparr>)"

subsection \<open>\<^verbatim>\<open>validate_fargate_resources\<close>\<close>

text \<open>\<^verbatim>\<open>list(range(start, stop, step))\<close> for a positive step.\<close>

definition py_range :: "int \<Rightarrow> int \<Rightarrow> int \<Rightarrow> int list" where
  "py_range start stop step =
     map (\<lambda>i. start + step * int i) [0..<nat ((stop - start + step - 1) div step)]"

text \<open>
  The grid is a dictionary; it is kept as the list of its items in source order. Its keys
  \<open>0.25\<close> and \<open>0.5\<close> are floats that are exact binary fractions, so keys and requests
  are rationals here and every comparison is the one Python makes.
\<close>

definition FARGATE_VALID_COMBOS :: "(rat \<times> int list) list" where
  "FARGATE_VALID_COMBOS =
     [(1 / 4, [512, 1024, 2048]),
      (1 / 2, [1024, 2048, 3072, 4096]),
      (1, [2048, 3072, 4096, 5120, 6144, 7168, 8192]),
      (2, [4096, 5120, 6144, 7168, 8192, 9216, 10240, 11264, 12288, 13312, 14336, 15360,
           16384]),
      (4, py_range 8192 30721 1024),
      (8, py_range 16384 61441 4096),
      (16, py_range 32768 122881 8192)]"

text \<open>
  Both searches of the function are the same \<^verbatim>\<open>for ... else\<close> loop: the first element
  that is at least the request, and the last element (\<^verbatim>\<open>xs[-1]\<close>) when the loop ends
  without a \<^verbatim>\<open>break\<close>.
\<close>

fun first_at_least :: "'a::linorder \<Rightarrow> 'a list \<Rightarrow> 'a option" where
  "first_at_least x [] = None"
| "first_at_least x (v # vs) = (if v \<ge> x then Some v else first_at_least x vs)"

definition for_else_select :: "'a::linorder \<Rightarrow> 'a list \<Rightarrow> py_error + 'a" where
  "for_else_select x xs =
     (case first_at_least x xs of
        Some v \<Rightarrow> Inr v
      | None \<Rightarrow> (if xs = [] then Inl IndexError else Inr (last xs)))"

text \<open>
  The result is the selected pair of numbers. The source then renders the selected vCPU
  as a string (\<^verbatim>\<open>"0.25"\<close>, \<^verbatim>\<open>"4"\<close>) for the Batch API; that rendering is left out.
\<close>

definition validate_fargate_resources :: "rat \<Rightarrow> int \<Rightarrow> py_error + rat \<times> int" where
  "validate_fargate_resources vcpu_req memory_req =
     (let valid_vcpus = sort (map fst FARGATE_VALID_COMBOS) in
      case for_else_select vcpu_req valid_vcpus of
        Inl e \<Rightarrow> Inl e
      | Inr selected_vcpu \<Rightarrow>
          (case map_of FARGATE_VALID_COMBOS selected_vcpu of
             None \<Rightarrow> Inl KeyError
           | Some valid_memories \<Rightarrow>
               (case for_else_select memory_req valid_memories of
                  Inl e \<Rightarrow> Inl e
                | Inr selected_memory \<Rightarrow> Inr (selected_vcpu, selected_memory))))"

section \<open>Stability Detector\<close>

text \<open>
  \<^verbatim>\<open>FileState\<close>: the size and modification time seen at an observation, and the clock
  reading taken when the object is built.
\<close>

record file_state =
  seen_size :: int
  seen_mtime :: real
  first_seen :: real

text \<open>
  \<^verbatim>\<open>DirectoryScanner._is_stable\<close>. The method reads the file system once
  (\<^verbatim>\<open>path.stat()\<close>, which raises \<^verbatim>\<open>OSError\<close> for a missing path), reads the clock
  (\<open>now\<close>; \<open>created\<close> is the later reading inside \<^verbatim>\<open>FileState\<close>) and may update
  \<^verbatim>\<open>self._known\<close>; the result is the answer together with the new map.
\<close>

definition is_stable ::
  "filesystem \<Rightarrow> real \<Rightarrow> real \<Rightarrow> (path \<rightharpoonup> file_state) \<Rightarrow> path \<Rightarrow> int
     \<Rightarrow> bool \<times> (path \<rightharpoonup> file_state)" where
  "is_stable fs now created known p min_age =
     (case fs p of
        None \<Rightarrow> (False, known)
      | Some st \<Rightarrow>
          if now - st_mtime st < of_int min_age then (False, known)
          else
            (let prev = known p;
                 current = \<lparr>seen_size = st_size st, seen_mtime = st_mtime st,
                            first_seen = created\<rparr>
             in case prev of
                  None \<Rightarrow> (False, known(p \<mapsto> current))
                | Some pr \<Rightarrow>
                    if seen_size pr \<noteq> seen_size current \<or> seen_mtime pr \<noteq> seen_mtime current
                    then (False, known(p \<mapsto> current))
                    else (True, known)))"

section \<open>Fallback Dispatcher\<close>

text \<open>
  \<^verbatim>\<open>DirectoryScanner._invoke_aws_fallback\<close>. What the outside world does is an input:
  \<open>post attempt\<close> is how the POST of that attempt ends (a response that passes
  \<^verbatim>\<open>raise_for_status\<close>, an \<^verbatim>\<open>HTTPStatusError\<close>, or any other exception), and
  \<open>jitter attempt\<close> is the number \<^verbatim>\<open>random.uniform(0, 1)\<close> returns after it. What
  the function does to the outside world is the list of its network calls and sleeps, in
  order.
\<close>

datatype post_outcome = Success int | HTTPStatusError int | OtherException

datatype io_event = Post nat | Sleep real

fun is_post :: "io_event \<Rightarrow> bool" where
  "is_post (Post _) = True"
| "is_post (Sleep _) = False"

fun succeeded :: "post_outcome \<Rightarrow> bool" where
  "succeeded (Success _) = True"
| "succeeded _ = False"

text \<open>
  The loop \<^verbatim>\<open>for attempt in range(max_retries)\<close>, run over the attempts still to come.
\<close>

fun fallback_attempts ::
  "(nat \<Rightarrow> post_outcome) \<Rightarrow> (nat \<Rightarrow> real) \<Rightarrow> int \<Rightarrow> nat list \<Rightarrow> bool \<times> io_event list" where
  "fallback_attempts post jitter max_retries [] = (False, [])"
| "fallback_attempts post jitter max_retries (attempt # rest) =
     (if succeeded (post attempt) then (True, [Post attempt])
      else
        (let waits = (if int attempt < max_retries - 1
                      then [Sleep (2 ^ attempt + jitter attempt)] else []);
             (delivered, events) = fallback_attempts post jitter max_retries rest
         in (delivered, Post attempt # waits @ events)))"

definition invoke_aws_fallback ::
  "settings \<Rightarrow> int option \<Rightarrow> (nat \<Rightarrow> post_outcome) \<Rightarrow> (nat \<Rightarrow> real) \<Rightarrow> bool \<times> io_event list" where
  "invoke_aws_fallback cfg max_retries_arg post jitter =
     (if \<not> truthy (aws_repair_api_base_url cfg) then (False, [])
      else
        (let max_retries = (case max_retries_arg of
                              None \<Rightarrow> aws_fallback_retries cfg
                            | Some n \<Rightarrow> n)
         in fallback_attempts post jitter max_retries [0..<nat max_retries]))"

section \<open>Repair Executor\<close>

text \<open>
  \<^verbatim>\<open>run_untrunc\<close>. The external tool is opaque: \<open>tool fs\<close> is how the child process
  ends (killed at the timeout, or exited with a return code) and the file system it
  leaves. \<open>binary_found\<close> says whether \<^verbatim>\<open>find_untrunc_binary\<close> succeeds, and
  \<open>auto_output\<close> is the path \<^verbatim>\<open>pathlib\<close> derives from the input
  (\<^verbatim>\<open><stem>_fixed<suffix>\<close> beside it). Directories are not modelled, so
  \<^verbatim>\<open>output_path.parent.mkdir\<close> has no effect here. The result is the outcome of the
  call and the file system after it.
\<close>

datatype process_result = TimedOut | Exited int

datatype run_error =
    InputMissing | ReferenceMissing | BinaryNotFound
  | Timeout | ToolFailed int | OutputNotCreated | OutputTooSmall int
  | StatFailed

definition MIN_OUTPUT_SIZE :: int where
  "MIN_OUTPUT_SIZE = 1024"

definition run_untrunc ::
  "bool \<Rightarrow> (filesystem \<Rightarrow> process_result \<times> filesystem) \<Rightarrow> filesystem
     \<Rightarrow> path \<Rightarrow> path \<Rightarrow> path \<Rightarrow> path \<Rightarrow> (run_error + unit) \<times> filesystem" where
  "run_untrunc binary_found tool fs input_path output_path reference_path auto_output =
     (if fs input_path = None then (Inl InputMissing, fs)
      else if fs reference_path = None then (Inl ReferenceMissing, fs)
      else if \<not> binary_found then (Inl BinaryNotFound, fs)
      else
        (case tool fs of
           (TimedOut, fs1) \<Rightarrow> (Inl Timeout, fs1)
         | (Exited returncode, fs1) \<Rightarrow>
             if returncode \<noteq> 0 then (Inl (ToolFailed returncode), fs1)
             else
               (case (if fs1 output_path = None
                      then (case fs1 auto_output of
                              Some f \<Rightarrow> Some (fs1(auto_output := None, output_path \<mapsto> f))
                            | None \<Rightarrow> None)
                      else Some fs1) of
                  None \<Rightarrow> (Inl OutputNotCreated, fs1)
                | Some fs2 \<Rightarrow>
                    (case fs2 output_path of
                       None \<Rightarrow> (Inl StatFailed, fs2)
                     | Some out \<Rightarrow>
                         if st_size out < MIN_OUTPUT_SIZE
                         then (Inl (OutputTooSmall (st_size out)), fs2(output_path := None))
                         else if fs2 input_path = None then (Inl StatFailed, fs2)
                         else (Inr (), fs2)))))"

section \<open>Reference copy at the end of a scan pass\<close>

text \<open>\<^verbatim>\<open>Path.relative_to\<close> on component lists; it raises \<^verbatim>\<open>ValueError\<close> outside the base.\<close>

definition relative_to :: "path \<Rightarrow> path \<Rightarrow> py_error + path" where
  "relative_to p base = (if prefix base p then Inr (drop (length base) p) else Inl ValueError)"



section \<open>One repair job of a scan pass\<close>

text \<open>
  \<^verbatim>\<open>scan_once.worker\<close>, for one source file. \<^verbatim>\<open>UntruncRepairError\<close> is caught and
  leads to quarantine and a fallback dispatch; an \<^verbatim>\<open>OSError\<close> from \<^verbatim>\<open>stat\<close> or
  \<^verbatim>\<open>unlink\<close> is not caught and leaves the worker. \<^verbatim>\<open>src.rename(qdst)\<close> fails with
  \<^verbatim>\<open>OSError\<close> when the source is gone, which the worker only logs. The result says
  whether the file was repaired and gives the network trace of the fallback, the file
  system and the stability map after the job.
\<close>

definition quarantine ::
  "settings \<Rightarrow> (nat \<Rightarrow> post_outcome) \<Rightarrow> (nat \<Rightarrow> real) \<Rightarrow> path \<Rightarrow> path
     \<Rightarrow> filesystem \<Rightarrow> (path \<rightharpoonup> file_state)
     \<Rightarrow> bool \<times> io_event list \<times> filesystem \<times> (path \<rightharpoonup> file_state)" where
  "quarantine cfg post jitter src qdst fs known =
     (let (fs', known') = (case fs src of
                             None \<Rightarrow> (fs, known)
                           | Some f \<Rightarrow> (fs(src := None, qdst \<mapsto> f), known(src := None)));
          (delivered, events) = invoke_aws_fallback cfg None post jitter
      in (False, events, fs', known'))"

definition worker ::
  "settings \<Rightarrow> bool \<Rightarrow> (filesystem \<Rightarrow> process_result \<times> filesystem)
     \<Rightarrow> (nat \<Rightarrow> post_outcome) \<Rightarrow> (nat \<Rightarrow> real) \<Rightarrow> (path \<Rightarrow> path)
     \<Rightarrow> path \<Rightarrow> path \<Rightarrow> path \<Rightarrow> path
     \<Rightarrow> filesystem \<Rightarrow> (path \<rightharpoonup> file_state) \<Rightarrow> path
     \<Rightarrow> py_error + bool \<times> io_event list \<times> filesystem \<times> (path \<rightharpoonup> file_state)" where
  "worker cfg binary_found tool post jitter auto_output_of
          ready_root export_root quarantine_root reference fs known src =
     (case relative_to src ready_root of
        Inl e \<Rightarrow> Inl e
      | Inr rel \<Rightarrow>
          (let dst = export_root @ rel;
               qdst = quarantine_root @ rel
           in case run_untrunc binary_found tool fs src dst reference (auto_output_of src) of
                (Inl StatFailed, fs1) \<Rightarrow> Inl OSError
              | (Inl e, fs1) \<Rightarrow> Inr (quarantine cfg post jitter src qdst fs1 known)
              | (Inr u, fs1) \<Rightarrow>
                  (case fs1 dst of
                     None \<Rightarrow> Inr (quarantine cfg post jitter src qdst fs1 known)
                   | Some out \<Rightarrow>
                       if st_size out < 1024
                       then Inr (quarantine cfg post jitter src qdst (fs1(dst := None)) known)
                       else (case fs1 src of
                               None \<Rightarrow> Inl OSError
                             | Some f \<Rightarrow>
                                 Inr (True, [], fs1(src := None), known(src := None))))))"

subsection \<open>Sample tool runs\<close>

text \<open>
  A tool that has written 100 bytes to its destination when the timeout kills it, and one
  that has written as much when it gives up with exit code 1.
\<close>

definition partial_output :: file_stat where
  "partial_output = \<lparr>st_size = 100, st_mtime = 2000\<rparr>"

definition killed_mid_write :: "path \<Rightarrow> filesystem \<Rightarrow> process_result \<times> filesystem" where
  "killed_mid_write out fs = (TimedOut, fs(out \<mapsto> partial_output))"

definition fails_mid_write :: "path \<Rightarrow> filesystem \<Rightarrow> process_result \<times> filesystem" where
  "fails_mid_write out fs = (Exited 1, fs(out \<mapsto> partial_output))"

definition sample_auto_output :: "path \<Rightarrow> path" where
  "sample_auto_output p = butlast p @ [''a_fixed.mp4'']"

definition sample_known :: "path \<rightharpoonup> file_state" where
  "sample_known =
     [[''ready'', ''b.mp4''] \<mapsto> \<lparr>seen_size = 10485760, seen_mtime = 1200, first_seen = 1300\<rparr>]"

definition fallback_settings :: settings where
  "fallback_settings = sample_settings\<lparr>aws_repair_api_base_url := Some ''https://repair.example''\<rparr>"

text \<open>The repair targets of a scan pass: \<^verbatim>\<open>[f for f in candidates if f != reference]\<close>.\<close>

definition files_to_repair :: "path list \<Rightarrow> path \<Rightarrow> path list" where
  "files_to_repair candidates reference = filter (\<lambda>f. f \<noteq> reference) candidates"

section \<open>A scan pass from its candidates on\<close>




subsection \<open>Sample passes\<close>





section \<open>Properties\<close>

subsection \<open>Reference Selector\<close>

lemma hd_insort_key:
  "hd (insort_key f x ys) = (if ys = [] then x else if f x \<le> f (hd ys) then x else hd ys)"
  by (cases ys) auto

lemma sort_key_Nil_iff: "sort_key f xs = [] \<longleftrightarrow> xs = []"
  by (metis length_sort list.size(3) length_0_conv)

text \<open>
  The head of a stable ascending sort is the element at the least index among those with
  the minimal key.
\<close>

lemma hd_sort_key_first_min:
  "xs \<noteq> [] \<Longrightarrow>
     \<exists>i<length xs. hd (sort_key f xs) = xs ! i
        \<and> (\<forall>j<length xs. f (xs ! i) \<le> f (xs ! j))
        \<and> (\<forall>j<i. f (xs ! i) < f (xs ! j))"
proof (induction xs)
  case Nil
  then show ?case by simp
next
  case (Cons x xs)
  show ?case
  proof (cases "xs = []")
    case True
    then show ?thesis by simp
  next
    case False
    from Cons.IH [OF False] obtain i where i: "i < length xs"
      and hdi: "hd (sort_key f xs) = xs ! i"
      and mn: "\<forall>j<length xs. f (xs ! i) \<le> f (xs ! j)"
      and fst: "\<forall>j<i. f (xs ! i) < f (xs ! j)" by blast
    have ne: "sort_key f xs \<noteq> []" using False by (simp add: sort_key_Nil_iff)
    have hd_eq: "hd (sort_key f (x # xs)) = (if f x \<le> f (xs ! i) then x else xs ! i)"
      using ne hdi by (simp add: hd_insort_key)
    show ?thesis
    proof (cases "f x \<le> f (xs ! i)")
      case True
      have "\<forall>j<length (x # xs). f ((x # xs) ! 0) \<le> f ((x # xs) ! j)"
      proof (intro allI impI)
        fix j assume "j < length (x # xs)"
        then show "f ((x # xs) ! 0) \<le> f ((x # xs) ! j)"
          using True mn by (cases j) (auto intro: order_trans)
      qed
      then show ?thesis using True hd_eq
        by (intro exI [of _ 0]) simp
    next
      case False
      have a: "\<forall>j<length (x # xs). f ((x # xs) ! Suc i) \<le> f ((x # xs) ! j)"
      proof (intro allI impI)
        fix j assume "j < length (x # xs)"
        then show "f ((x # xs) ! Suc i) \<le> f ((x # xs) ! j)"
          using False mn by (cases j) auto
      qed
      have b: "\<forall>j<Suc i. f ((x # xs) ! Suc i) < f ((x # xs) ! j)"
      proof (intro allI impI)
        fix j assume "j < Suc i"
        then show "f ((x # xs) ! Suc i) < f ((x # xs) ! j)"
          using False fst by (cases j) auto
      qed
      show ?thesis using False hd_eq i a b
        by (intro exI [of _ "Suc i"]) simp
    qed
  qed
qed

lemma first_py_sorted_smallest:
  assumes "xs \<noteq> []"
  shows "\<exists>i<length xs. item0 (py_sorted f False xs) = Inr (xs ! i)
        \<and> (\<forall>j<length xs. f (xs ! i) \<le> f (xs ! j))
        \<and> (\<forall>j<i. f (xs ! i) < f (xs ! j))"
proof -
  from hd_sort_key_first_min [OF assms, of f] obtain i where i: "i < length xs"
    and h: "hd (sort_key f xs) = xs ! i"
    and m: "\<forall>j<length xs. f (xs ! i) \<le> f (xs ! j)"
    and l: "\<forall>j<i. f (xs ! i) < f (xs ! j)" by blast
  have "sort_key f xs \<noteq> []" using assms by (simp add: sort_key_Nil_iff)
  then have "item0 (py_sorted f False xs) = Inr (xs ! i)"
    using h by (cases "sort_key f xs") (simp_all add: py_sorted_def)
  with i m l show ?thesis by blast
qed

lemma first_py_sorted_single: "item0 (py_sorted f r [x]) = Inr x"
  by (simp add: py_sorted_def)

lemma select_reference_file_single:
  "select_reference_file [f] strategy explicit_ref = Inr (Some (key f))"
  by (auto simp: select_reference_file_def head_key_def first_py_sorted_single)

lemma sample_scanner_selection:
  "scanner_select_reference_file sample_settings sample_ready sample_candidates
     = Inr (Some [''ready'', ''b.mp4''])"
  by (simp add: scanner_select_reference_file_def sample_settings_def sample_ready_def
      sample_candidates_def sorted_by_stat_def head_by_stat_def py_sorted_def)

lemma sample_batch_selection:
  "select_reference_file sample_listing ''smallest'' None = Inr (Some ''cam1/b.mp4'')"
  by (simp add: select_reference_file_def sample_listing_def truthy_def head_key_def
      py_sorted_def)

text \<open>
  C1, as the code has it. For a candidate list of length 0 or 1 the edge selector returns
  none whatever the configured strategy. The batch selector returns none for the empty
  listing (any strategy, any explicit override), but for a listing of one file it returns
  that file's key; the batch handler refuses a listing of fewer than two files before it
  selects, so no reference and no repair target comes out of such a batch.
\<close>

theorem fewer_than_two_candidates:
  assumes "length candidates \<le> 1" and "length files \<le> 1"
  shows "scanner_select_reference_file cfg fs candidates = Inr None
       \<and> select_reference_file [] strategy explicit_ref = Inr None
       \<and> select_reference_file [f] strategy explicit_ref = Inr (Some (key f))
       \<and> isl (submit_batch_selection files strategy explicit_ref)"
proof -
  have a: "scanner_select_reference_file cfg fs candidates = Inr None"
    using assms(1) by (cases candidates) (simp_all add: scanner_select_reference_file_def)
  have b: "select_reference_file [] strategy explicit_ref = Inr None"
    by (simp add: select_reference_file_def)
  have c: "isl (submit_batch_selection files strategy explicit_ref)"
    using assms(2) by (cases files) (simp_all add: submit_batch_selection_def)
  show ?thesis using a b c select_reference_file_single by simp
qed

theorem fewer_than_two_candidates_witness:
  "scanner_select_reference_file sample_settings sample_ready [[''ready'', ''a.mp4'']] = Inr None
   \<and> select_reference_file [] ''newest'' (Some ''cam1/a.mp4'') = Inr None
   \<and> select_reference_file [hd sample_listing] ''newest'' (Some ''cam1/a.mp4'')
       = Inr (Some ''cam1/a.mp4'')
   \<and> submit_batch_selection [hd sample_listing] ''newest'' (Some ''cam1/a.mp4'')
       = Inl (NeedTwoFiles 1)"
proof -
  have h1: "length [[''ready'', ''a.mp4'']] \<le> 1" by simp
  have h2: "length [hd sample_listing] \<le> 1" by simp
  have k: "key (hd sample_listing) = ''cam1/a.mp4''" by (simp add: sample_listing_def)
  have g: "submit_batch_selection [hd sample_listing] ''newest'' (Some ''cam1/a.mp4'')
       = Inl (NeedTwoFiles 1)"
    by (simp add: submit_batch_selection_def)
  show ?thesis
    using fewer_than_two_candidates [OF h1 h2, of sample_settings sample_ready "''newest''"
        "Some ''cam1/a.mp4''" "hd sample_listing"] k g
    by simp
qed

text \<open>
  C1 as stated fails on the batch selector: a listing of one file yields that file's key.
\<close>

theorem single_candidate_counterexample:
  "length [hd sample_listing] = 1
   \<and> select_reference_file [hd sample_listing] ''smallest'' None = Inr (Some ''cam1/a.mp4'')
   \<and> select_reference_file [hd sample_listing] ''smallest'' None \<noteq> Inr None"
  by (simp add: select_reference_file_single sample_listing_def)

text \<open>
  C6. With at least two candidates, strategy \<^verbatim>\<open>smallest\<close> and no explicit override, the
  selected reference is an element of the input, its size is at most the size of every
  candidate, and every candidate before it in the input order is strictly larger: among
  equal minima the first is chosen. For the edge selector the candidates must still
  exist when \<^verbatim>\<open>stat\<close> reads their sizes.
\<close>

theorem smallest_selects_first_minimum:
  assumes "2 \<le> length candidates" and "reference_strategy cfg = ''smallest''"
    and "\<forall>p\<in>set candidates. fs p \<noteq> None"
    and "2 \<le> length files" and "\<not> truthy explicit_ref"
  shows "(\<exists>i<length candidates.
            scanner_select_reference_file cfg fs candidates = Inr (Some (candidates ! i))
          \<and> candidates ! i \<in> set candidates
          \<and> (\<forall>j<length candidates.
                st_size (the (fs (candidates ! i))) \<le> st_size (the (fs (candidates ! j))))
          \<and> (\<forall>j<i. st_size (the (fs (candidates ! i))) < st_size (the (fs (candidates ! j)))))
       \<and> (\<exists>i<length files.
            select_reference_file files ''smallest'' explicit_ref = Inr (Some (key (files ! i)))
          \<and> files ! i \<in> set files
          \<and> (\<forall>j<length files. size_bytes (files ! i) \<le> size_bytes (files ! j))
          \<and> (\<forall>j<i. size_bytes (files ! i) < size_bytes (files ! j)))"
proof
  have ne: "candidates \<noteq> []" using assms(1) by auto
  from first_py_sorted_smallest [OF ne, of "\<lambda>p. st_size (the (fs p))"]
  obtain i where i: "i < length candidates"
    and h: "item0 (py_sorted (\<lambda>p. st_size (the (fs p))) False candidates) = Inr (candidates ! i)"
    and m: "\<forall>j<length candidates.
              st_size (the (fs (candidates ! i))) \<le> st_size (the (fs (candidates ! j)))"
    and l: "\<forall>j<i. st_size (the (fs (candidates ! i))) < st_size (the (fs (candidates ! j)))"
    by blast
  have all: "list_all (\<lambda>p. fs p \<noteq> None) candidates"
    using assms(3) by (simp add: list_all_iff)
  have "scanner_select_reference_file cfg fs candidates = Inr (Some (candidates ! i))"
    using assms(1,2) ne all h
    by (simp add: scanner_select_reference_file_def sorted_by_stat_def head_by_stat_def)
  with i m l show "\<exists>i<length candidates.
            scanner_select_reference_file cfg fs candidates = Inr (Some (candidates ! i))
          \<and> candidates ! i \<in> set candidates
          \<and> (\<forall>j<length candidates.
                st_size (the (fs (candidates ! i))) \<le> st_size (the (fs (candidates ! j))))
          \<and> (\<forall>j<i. st_size (the (fs (candidates ! i))) < st_size (the (fs (candidates ! j))))"
    using nth_mem by blast
next
  have ne: "files \<noteq> []" using assms(4) by auto
  from first_py_sorted_smallest [OF ne, of size_bytes]
  obtain i where i: "i < length files"
    and h: "item0 (py_sorted size_bytes False files) = Inr (files ! i)"
    and m: "\<forall>j<length files. size_bytes (files ! i) \<le> size_bytes (files ! j)"
    and l: "\<forall>j<i. size_bytes (files ! i) < size_bytes (files ! j)"
    by blast
  have "select_reference_file files ''smallest'' explicit_ref = Inr (Some (key (files ! i)))"
    using assms(5) ne h by (simp add: select_reference_file_def head_key_def)
  with i m l show "\<exists>i<length files.
            select_reference_file files ''smallest'' explicit_ref = Inr (Some (key (files ! i)))
          \<and> files ! i \<in> set files
          \<and> (\<forall>j<length files. size_bytes (files ! i) \<le> size_bytes (files ! j))
          \<and> (\<forall>j<i. size_bytes (files ! i) < size_bytes (files ! j))"
    using nth_mem by blast
qed

theorem smallest_selects_first_minimum_witness:
  "2 \<le> length sample_candidates \<and> reference_strategy sample_settings = ''smallest''
   \<and> list_all (\<lambda>p. sample_ready p \<noteq> None) sample_candidates
   \<and> 2 \<le> length sample_listing \<and> \<not> truthy None
   \<and> scanner_select_reference_file sample_settings sample_ready sample_candidates
       = Inr (Some (sample_candidates ! 1))
   \<and> select_reference_file sample_listing ''smallest'' None
       = Inr (Some (key (sample_listing ! 1)))"
proof -
  have h1: "2 \<le> length sample_candidates" by (simp add: sample_candidates_def)
  have h2: "reference_strategy sample_settings = ''smallest''"
    by (simp add: sample_settings_def)
  have h3: "\<forall>p\<in>set sample_candidates. sample_ready p \<noteq> None"
    by (simp add: sample_candidates_def sample_ready_def)
  have h4: "2 \<le> length sample_listing" by (simp add: sample_listing_def)
  have h5: "\<not> truthy None" by (simp add: truthy_def)
  have c1: "sample_candidates ! 1 = [''ready'', ''b.mp4'']" by (simp add: sample_candidates_def)
  have c2: "key (sample_listing ! 1) = ''cam1/b.mp4''" by (simp add: sample_listing_def)
  show ?thesis
    using smallest_selects_first_minimum [OF h1 h2 h3 h4 h5] h1 h2 h3 h4 h5 c1 c2
      sample_scanner_selection sample_batch_selection
    by (simp add: list_all_iff)
qed

text \<open>
  C8. For a strategy string that is neither \<^verbatim>\<open>smallest\<close> nor \<^verbatim>\<open>newest\<close>, each
  selector returns exactly what it returns for \<^verbatim>\<open>smallest\<close>, on every candidate list
  (and, for the batch selector, every explicit override): the last branch of both
  functions is the \<^verbatim>\<open>smallest\<close> branch again, and no branch raises for the strategy.
\<close>

theorem unrecognized_strategy:
  assumes "s \<noteq> ''smallest''" and "s \<noteq> ''newest''"
  shows "select_reference_file files s explicit_ref
           = select_reference_file files ''smallest'' explicit_ref
       \<and> scanner_select_reference_file (cfg\<lparr>reference_strategy := s\<rparr>) fs candidates
           = scanner_select_reference_file (cfg\<lparr>reference_strategy := ''smallest''\<rparr>) fs candidates"
  using assms
  by (simp add: select_reference_file_def scanner_select_reference_file_def)

theorem unrecognized_strategy_witness:
  "''largest'' \<noteq> ''smallest'' \<and> ''largest'' \<noteq> ''newest''
   \<and> select_reference_file sample_listing ''largest'' None = Inr (Some ''cam1/b.mp4'')
   \<and> scanner_select_reference_file (sample_settings\<lparr>reference_strategy := ''largest''\<rparr>)
        sample_ready sample_candidates = Inr (Some [''ready'', ''b.mp4''])"
proof -
  have h1: "''largest'' \<noteq> ''smallest''" by simp
  have h2: "''largest'' \<noteq> ''newest''" by simp
  have r: "sample_settings\<lparr>reference_strategy := ''smallest''\<rparr> = sample_settings"
    by (simp add: sample_settings_def)
  show ?thesis
    using unrecognized_strategy [OF h1 h2, of sample_listing None sample_settings sample_ready
        sample_candidates] r sample_scanner_selection sample_batch_selection
    by simp
qed

subsection \<open>Resource Sizing Engine\<close>

lemma find_tier_RESOURCE_TIERS:
  "find_tier g RESOURCE_TIERS =
     (if g \<le> 5 then (1, 2048, 30) else if g \<le> 20 then (2, 4096, 60)
      else if g \<le> 50 then (4, 8192, 120) else if g \<le> 100 then (4, 16384, 175)
      else if g \<le> 200 then (8, 30720, 200) else (8, 30720, 200))"
  by (simp add: RESOURCE_TIERS_def)

lemma find_tier_mono:
  assumes "a \<le> b"
  shows "fst (snd (find_tier a RESOURCE_TIERS)) \<le> fst (snd (find_tier b RESOURCE_TIERS))
       \<and> snd (snd (find_tier a RESOURCE_TIERS)) \<le> snd (snd (find_tier b RESOURCE_TIERS))"
  using assms unfolding find_tier_RESOURCE_TIERS by auto

text \<open>
  C5. With \<^verbatim>\<open>largest_file_bytes\<close> fixed, a larger \<^verbatim>\<open>total_bytes\<close> never gives a
  smaller memory or a smaller storage.
\<close>

theorem sizing_monotonic_in_total:
  assumes "total_bytes1 \<le> total_bytes2"
  shows "memory (calculate_resources total_bytes1 largest_file_bytes)
           \<le> memory (calculate_resources total_bytes2 largest_file_bytes)
       \<and> storage (calculate_resources total_bytes1 largest_file_bytes)
           \<le> storage (calculate_resources total_bytes2 largest_file_bytes)"
proof -
  have "(of_int total_bytes1 :: rat) / 1024 ^ 3 \<le> of_int total_bytes2 / 1024 ^ 3"
    using assms by (simp add: divide_right_mono)
  from find_tier_mono [OF this] show ?thesis
    by (auto simp: calculate_resources_def Let_def split: prod.splits)
qed

lemma sizing_4GB: "calculate_resources 4294967296 1073741824
    = \<lparr>vcpu = 1, memory = 2048, storage = 30\<rparr>"
  by (simp add: calculate_resources_def find_tier_RESOURCE_TIERS py_int_def)

lemma sizing_15GB: "calculate_resources 16106127360 1073741824
    = \<lparr>vcpu = 2, memory = 4096, storage = 60\<rparr>"
  by (simp add: calculate_resources_def find_tier_RESOURCE_TIERS py_int_def)

theorem sizing_monotonic_in_total_witness:
  "(4294967296 :: int) \<le> 16106127360
   \<and> memory (calculate_resources 4294967296 1073741824) = 2048
   \<and> memory (calculate_resources 16106127360 1073741824) = 4096
   \<and> storage (calculate_resources 4294967296 1073741824) = 30
   \<and> storage (calculate_resources 16106127360 1073741824) = 60"
proof -
  have h: "(4294967296 :: int) \<le> 16106127360" by simp
  show ?thesis
    using sizing_monotonic_in_total [OF h, of 1073741824] sizing_4GB sizing_15GB
    by simp
qed

lemma combos_explicit: "FARGATE_VALID_COMBOS =
     [(1 / 4, [512, 1024, 2048]),
      (1 / 2, [1024, 2048, 3072, 4096]),
      (1, [2048, 3072, 4096, 5120, 6144, 7168, 8192]),
      (2, [4096, 5120, 6144, 7168, 8192, 9216, 10240, 11264, 12288, 13312, 14336, 15360,
           16384]),
      (4, [8192, 9216, 10240, 11264, 12288, 13312, 14336, 15360, 16384, 17408, 18432, 19456,
           20480, 21504, 22528, 23552, 24576, 25600, 26624, 27648, 28672, 29696, 30720]),
      (8, [16384, 20480, 24576, 28672, 32768, 36864, 40960, 45056, 49152, 53248, 57344, 61440]),
      (16, [32768, 40960, 49152, 57344, 65536, 73728, 81920, 90112, 98304, 106496, 114688,
            122880])]"
  by code_simp

lemma valid_vcpus: "sort (map fst FARGATE_VALID_COMBOS) = [1 / 4, 1 / 2, 1, 2, 4, 8, 16]"
  by (simp add: FARGATE_VALID_COMBOS_def)

lemma first_at_least_Some:
  "first_at_least x xs = Some v \<Longrightarrow> v \<in> set xs \<and> x \<le> v"
  by (induction xs) (auto split: if_splits)

lemma first_at_least_None:
  "first_at_least x xs = None \<Longrightarrow> u \<in> set xs \<Longrightarrow> u < x"
  by (induction xs) (auto split: if_splits)

lemma for_else_select_total:
  "xs \<noteq> [] \<Longrightarrow> \<exists>v. for_else_select x xs = Inr v \<and> v \<in> set xs"
  by (auto simp: for_else_select_def split: option.splits dest: first_at_least_Some)

lemma sorted_le_last: "sorted xs \<Longrightarrow> u \<in> set xs \<Longrightarrow> u \<le> last xs"
  by (induction xs) auto

text \<open>
  On an ascending list the loop rounds up when the request is at most the last element,
  and otherwise falls back to the last element, which is below the request.
\<close>

lemma for_else_select_round:
  assumes "for_else_select x xs = Inr v" and "sorted xs"
  shows "if x \<le> last xs then x \<le> v else v = last xs"
proof (cases "first_at_least x xs")
  case None
  with assms(1) have ne: "xs \<noteq> []" and v: "v = last xs"
    by (auto simp: for_else_select_def split: if_splits)
  from ne have "last xs \<in> set xs" by simp
  with None have "last xs < x" by (rule first_at_least_None)
  with v show ?thesis by simp
next
  case (Some u)
  with assms(1) have uv: "u = v" by (simp add: for_else_select_def)
  from Some have mem: "u \<in> set xs" and ge: "x \<le> u" by (auto dest: first_at_least_Some)
  from mem assms(2) have "u \<le> last xs" by (simp add: sorted_le_last)
  then show ?thesis using ge uv by auto
qed

lemma grid_well_formed:
  "distinct (map fst FARGATE_VALID_COMBOS)
   \<and> list_all (\<lambda>(k, ms). ms \<noteq> [] \<and> sorted ms) FARGATE_VALID_COMBOS"
  unfolding combos_explicit by simp

lemma selected_vcpu_lookup:
  assumes "v \<in> set (sort (map fst FARGATE_VALID_COMBOS))"
  shows "\<exists>ms. map_of FARGATE_VALID_COMBOS v = Some ms \<and> ms \<noteq> [] \<and> sorted ms"
proof -
  from assms have "v \<in> fst ` set FARGATE_VALID_COMBOS" by simp
  then obtain ms where kv: "(v, ms) \<in> set FARGATE_VALID_COMBOS" by auto
  have d: "distinct (map fst FARGATE_VALID_COMBOS)"
    using grid_well_formed by simp
  have m: "map_of FARGATE_VALID_COMBOS v = Some ms" using d kv by simp
  have "list_all (\<lambda>(k, ms). ms \<noteq> [] \<and> sorted ms) FARGATE_VALID_COMBOS"
    using grid_well_formed by simp
  with kv have "ms \<noteq> [] \<and> sorted ms" by (auto simp: list_all_iff)
  with m show ?thesis by blast
qed

lemma snap_3_9000: "validate_fargate_resources 3 9000 = Inr (4, 9216)"
  by (simp add: validate_fargate_resources_def valid_vcpus for_else_select_def combos_explicit)

lemma snap_1_9216: "validate_fargate_resources 1 9216 = Inr (1, 8192)"
  by (simp add: validate_fargate_resources_def valid_vcpus for_else_select_def combos_explicit)

lemma snap_32_65536: "validate_fargate_resources 32 65536 = Inr (16, 65536)"
  by (simp add: validate_fargate_resources_def valid_vcpus for_else_select_def combos_explicit)

text \<open>
  C4. For every requested pair the function returns a pair, the returned vCPU is a key of
  \<^verbatim>\<open>FARGATE_VALID_COMBOS\<close> and the returned memory is in that key's list.
\<close>

theorem snapped_on_grid:
  "\<exists>v m ms. validate_fargate_resources vcpu_req memory_req = Inr (v, m)
      \<and> map_of FARGATE_VALID_COMBOS v = Some ms \<and> m \<in> set ms"
proof -
  have "sort (map fst FARGATE_VALID_COMBOS) \<noteq> []" by (simp add: valid_vcpus)
  from for_else_select_total [OF this, of vcpu_req] obtain v
    where v: "for_else_select vcpu_req (sort (map fst FARGATE_VALID_COMBOS)) = Inr v"
      and vm: "v \<in> set (sort (map fst FARGATE_VALID_COMBOS))" by blast
  from selected_vcpu_lookup [OF vm] obtain ms
    where ms: "map_of FARGATE_VALID_COMBOS v = Some ms" and ne: "ms \<noteq> []" by blast
  from for_else_select_total [OF ne, of memory_req] obtain m
    where m: "for_else_select memory_req ms = Inr m" and mm: "m \<in> set ms" by blast
  have "validate_fargate_resources vcpu_req memory_req = Inr (v, m)"
    using v ms m by (simp add: validate_fargate_resources_def)
  with ms mm show ?thesis by blast
qed

theorem snapped_on_grid_witness:
  "\<exists>ms. validate_fargate_resources 32 65536 = Inr (16, 65536)
      \<and> map_of FARGATE_VALID_COMBOS 16 = Some ms \<and> 65536 \<in> set ms"
  using snapped_on_grid [of 32 65536] snap_32_65536 by simp

text \<open>
  C2, as the code has it. The snapped vCPU is at least the request when the request is
  at most 16, the largest key, and is 16 otherwise; the snapped memory is at least the
  request when the request is at most the largest memory of the selected vCPU, and is
  that largest memory otherwise.
\<close>

theorem snap_rounds_up_within_grid:
  assumes "validate_fargate_resources vcpu_req memory_req = Inr (v, m)"
  shows "\<exists>ms. map_of FARGATE_VALID_COMBOS v = Some ms
      \<and> (if vcpu_req \<le> 16 then vcpu_req \<le> v else v = 16)
      \<and> (if memory_req \<le> last ms then memory_req \<le> m else m = last ms)"
proof -
  from assms obtain ms where
    v: "for_else_select vcpu_req (sort (map fst FARGATE_VALID_COMBOS)) = Inr v"
    and ms: "map_of FARGATE_VALID_COMBOS v = Some ms"
    and m: "for_else_select memory_req ms = Inr m"
    by (auto simp: validate_fargate_resources_def Let_def split: sum.splits option.splits)
  have l: "last (sort (map fst FARGATE_VALID_COMBOS)) = 16" by (simp add: valid_vcpus)
  have a: "if vcpu_req \<le> 16 then vcpu_req \<le> v else v = 16"
    using for_else_select_round [OF v] l by simp
  have "v \<in> set (sort (map fst FARGATE_VALID_COMBOS))"
    using for_else_select_total [of "sort (map fst FARGATE_VALID_COMBOS)" vcpu_req] v
    by (simp add: valid_vcpus)
  from selected_vcpu_lookup [OF this] ms have "sorted ms" by auto
  from for_else_select_round [OF m this] a ms show ?thesis by blast
qed

theorem snap_rounds_up_within_grid_witness:
  "validate_fargate_resources 3 9000 = Inr (4, 9216)
   \<and> (\<exists>ms. map_of FARGATE_VALID_COMBOS 4 = Some ms \<and> last ms = 30720)
   \<and> (3 :: rat) \<le> 4 \<and> (9000 :: int) \<le> 9216"
proof -
  have l: "\<exists>ms. map_of FARGATE_VALID_COMBOS 4 = Some ms \<and> last ms = 30720"
    by (simp add: combos_explicit)
  show ?thesis using snap_rounds_up_within_grid [OF snap_3_9000] snap_3_9000 l by simp
qed

text \<open>
  C2 as stated fails. A batch of 5 GB in total whose largest file has 4.5 GB is sized at
  1 vCPU and 9216 MB, and the snap lowers the memory to 8192 MB; a request of 32 vCPU is
  lowered to 16.
\<close>

theorem snap_under_provisions_counterexample:
  "calculate_resources 5368709120 4831838208 = \<lparr>vcpu = 1, memory = 9216, storage = 30\<rparr>
   \<and> validate_fargate_resources 1 9216 = Inr (1, 8192) \<and> (8192 :: int) < 9216
   \<and> validate_fargate_resources 32 65536 = Inr (16, 65536) \<and> (16 :: rat) < 32"
proof -
  have "calculate_resources 5368709120 4831838208 = \<lparr>vcpu = 1, memory = 9216, storage = 30\<rparr>"
    by (simp add: calculate_resources_def find_tier_RESOURCE_TIERS py_int_def)
  then show ?thesis using snap_1_9216 snap_32_65536 by simp
qed

subsection \<open>Stability Detector\<close>

text \<open>
  C9. A path with no entry in the stability map is reported as not stable, whatever the
  file system holds for it, whatever the clock reads and whatever the minimum age is.
\<close>

theorem first_observation_never_stable:
  assumes "known p = None"
  shows "fst (is_stable fs now created known p min_age) = False"
  using assms by (simp add: is_stable_def Let_def split: option.splits)

theorem first_observation_never_stable_witness:
  "is_stable sample_ready 5000 5001 Map.empty [''ready'', ''a.mp4''] 60
     = (False, [[''ready'', ''a.mp4'']
                  \<mapsto> \<lparr>seen_size = 104857600, seen_mtime = 1000, first_seen = 5001\<rparr>])"
proof -
  have "fst (is_stable sample_ready 5000 5001 Map.empty [''ready'', ''a.mp4''] 60) = False"
    using first_observation_never_stable
      [of Map.empty "[''ready'', ''a.mp4'']" sample_ready 5000 5001 60]
    by simp
  then show ?thesis
    by (simp add: is_stable_def sample_ready_def)
qed

subsection \<open>Fallback Dispatcher\<close>

lemma fallback_attempts_all_fail:
  "\<forall>a\<in>set as. \<not> succeeded (post a) \<Longrightarrow>
     fallback_attempts post jitter m as =
       (False, concat (map (\<lambda>a. Post a # (if int a < m - 1
                                            then [Sleep (2 ^ a + jitter a)] else [])) as))"
  by (induction as) simp_all

lemma count_posts:
  "length (filter is_post (concat (map (\<lambda>a. Post a # (if c a then [Sleep (w a)] else [])) as)))
     = length as"
  by (induction as) simp_all

text \<open>
  C7. Let \<open>n \<ge> 1\<close> be the number of attempts in force (the argument, or the configured
  default when the argument is \<^verbatim>\<open>None\<close>) and let every attempt fail. Then the call
  returns \<^verbatim>\<open>False\<close> after exactly \<open>n\<close> POSTs; after attempt \<open>a\<close> it sleeps
  \<open>2^a\<close> seconds plus the jitter drawn then, except after the last attempt, where it
  does not sleep. With no base URL configured it returns \<^verbatim>\<open>False\<close> and does nothing.
\<close>

theorem fallback_exhaustion:
  assumes "truthy (aws_repair_api_base_url cfg)"
    and "(case max_retries_arg of None \<Rightarrow> aws_fallback_retries cfg | Some k \<Rightarrow> k) = int n"
    and "1 \<le> n"
    and "\<forall>a<n. \<not> succeeded (post a)"
    and "\<not> truthy (aws_repair_api_base_url cfg0)"
  shows "invoke_aws_fallback cfg max_retries_arg post jitter =
           (False, concat (map (\<lambda>a. if Suc a < n then [Post a, Sleep (2 ^ a + jitter a)]
                                      else [Post a]) [0..<n]))
       \<and> length (filter is_post (snd (invoke_aws_fallback cfg max_retries_arg post jitter))) = n
       \<and> last (snd (invoke_aws_fallback cfg max_retries_arg post jitter)) = Post (n - 1)
       \<and> invoke_aws_fallback cfg0 max_retries_arg post jitter = (False, [])"
proof -
  let ?g = "\<lambda>a. Post a # (if int a < int n - 1 then [Sleep (2 ^ a + jitter a)] else [])"
  have fail: "\<forall>a\<in>set [0..<n]. \<not> succeeded (post a)" using assms(4) by simp
  have run: "invoke_aws_fallback cfg max_retries_arg post jitter = (False, concat (map ?g [0..<n]))"
    using assms(1,2) fallback_attempts_all_fail [OF fail, of jitter "int n"]
    by (simp add: invoke_aws_fallback_def)
  have g: "?g = (\<lambda>a. if Suc a < n then [Post a, Sleep (2 ^ a + jitter a)] else [Post a])"
    by (rule ext) auto
  have cnt: "length (filter is_post (concat (map ?g [0..<n]))) = n"
    using count_posts [of "\<lambda>a. int a < int n - 1" "\<lambda>a. 2 ^ a + jitter a" "[0..<n]"] by simp
  obtain k where k: "n = Suc k" using assms(3) by (cases n) auto
  have lst: "last (concat (map ?g [0..<n])) = Post (n - 1)"
    unfolding k by simp
  have off: "invoke_aws_fallback cfg0 max_retries_arg post jitter = (False, [])"
    using assms(5) by (simp add: invoke_aws_fallback_def)
  show ?thesis using run cnt lst off unfolding g by simp
qed

theorem fallback_exhaustion_witness:
  "invoke_aws_fallback fallback_settings None (\<lambda>a. HTTPStatusError 503) (\<lambda>a. 1 / 2)
     = (False, [Post 0, Sleep (3 / 2), Post 1, Sleep (5 / 2), Post 2])
   \<and> invoke_aws_fallback sample_settings None (\<lambda>a. HTTPStatusError 503) (\<lambda>a. 1 / 2)
     = (False, [])"
proof -
  have h1: "truthy (aws_repair_api_base_url fallback_settings)"
    by (simp add: fallback_settings_def truthy_def)
  have h2: "(case None of None \<Rightarrow> aws_fallback_retries fallback_settings | Some k \<Rightarrow> k) = int 3"
    by (simp add: fallback_settings_def sample_settings_def)
  have h3: "1 \<le> (3 :: nat)" by simp
  have h4: "\<forall>a<3. \<not> succeeded ((\<lambda>a. HTTPStatusError 503) a)" by simp
  have h5: "\<not> truthy (aws_repair_api_base_url sample_settings)"
    by (simp add: sample_settings_def truthy_def)
  have u: "[0..<3] = [0, 1, 2]" by (simp add: upt_rec)
  show ?thesis
    using fallback_exhaustion [OF h1 h2 h3 h4 h5, of "\<lambda>a. 1 / 2"]
    by (simp add: u)
qed

subsection \<open>Repair Executor\<close>

text \<open>
  Where the executor does clean up: when the call fails because no output was created or
  because the output was too small, nothing is left at the destination, and a successful
  call leaves an output of at least the minimum size.
\<close>

lemma run_untrunc_validation_cleans:
  assumes "run_untrunc b tool fs inp out ref auto_out = (Inl e, fs')"
    and "e = OutputNotCreated \<or> (\<exists>k. e = OutputTooSmall k)"
  shows "fs' out = None"
  using assms
  by (auto simp: run_untrunc_def split: if_splits prod.splits process_result.splits option.splits)

lemma run_untrunc_success_plausible:
  assumes "run_untrunc b tool fs inp out ref auto_out = (Inr u, fs')"
  shows "\<exists>f. fs' out = Some f \<and> MIN_OUTPUT_SIZE \<le> st_size f"
  using assms
  by (auto simp: run_untrunc_def split: if_splits prod.splits process_result.splits option.splits)

text \<open>
  Where it does not: after a timeout or a nonzero exit the file system is exactly what
  the tool left, whatever that is.
\<close>

lemma run_untrunc_tool_failure_keeps_tool_state:
  assumes "fs inp \<noteq> None" and "fs ref \<noteq> None"
    and "tool fs = (r, fs1)" and "r = TimedOut \<or> (\<exists>rc. r = Exited rc \<and> rc \<noteq> 0)"
  shows "\<exists>e. run_untrunc True tool fs inp out ref auto_out = (Inl e, fs1)"
  using assms by (auto simp: run_untrunc_def)

lemma run_killed_mid_write:
  "run_untrunc True (killed_mid_write [''export'', ''a.mp4'']) sample_ready
      [''ready'', ''a.mp4''] [''export'', ''a.mp4''] [''ready'', ''b.mp4'']
      [''ready'', ''a_fixed.mp4'']
    = (Inl Timeout, sample_ready([''export'', ''a.mp4''] \<mapsto> partial_output))"
  by (simp add: run_untrunc_def killed_mid_write_def sample_ready_def)

lemma run_fails_mid_write:
  "run_untrunc True (fails_mid_write [''export'', ''a.mp4'']) sample_ready
      [''ready'', ''a.mp4''] [''export'', ''a.mp4''] [''ready'', ''b.mp4'']
      [''ready'', ''a_fixed.mp4'']
    = (Inl (ToolFailed 1), sample_ready([''export'', ''a.mp4''] \<mapsto> partial_output))"
  by (simp add: run_untrunc_def fails_mid_write_def sample_ready_def)

lemma quarantine_after_partial_write:
  "quarantine sample_settings (\<lambda>a. OtherException) (\<lambda>a. 0)
      [''ready'', ''a.mp4''] [''quarantine'', ''a.mp4'']
      (sample_ready([''export'', ''a.mp4''] \<mapsto> partial_output)) sample_known
    = (False, [], (sample_ready([''export'', ''a.mp4''] \<mapsto> partial_output))
            ([''ready'', ''a.mp4''] := None,
             [''quarantine'', ''a.mp4''] \<mapsto> \<lparr>st_size = 104857600, st_mtime = 1000\<rparr>),
           sample_known)"
  by (simp add: quarantine_def invoke_aws_fallback_def sample_settings_def truthy_def
      sample_ready_def sample_known_def)

text \<open>
  C3 fails on the code. The tool writes 100 bytes to the destination and is then killed
  at the timeout, or exits with code 1: \<^verbatim>\<open>run_untrunc\<close> raises and leaves the
  100-byte file at the destination, and the worker that catches the error moves the
  source to quarantine and leaves the destination as it is.
\<close>

theorem failed_run_leaves_small_output:
  "run_untrunc True (killed_mid_write [''export'', ''a.mp4'']) sample_ready
      [''ready'', ''a.mp4''] [''export'', ''a.mp4''] [''ready'', ''b.mp4'']
      [''ready'', ''a_fixed.mp4'']
     = (Inl Timeout, sample_ready([''export'', ''a.mp4''] \<mapsto> partial_output))
   \<and> run_untrunc True (fails_mid_write [''export'', ''a.mp4'']) sample_ready
      [''ready'', ''a.mp4''] [''export'', ''a.mp4''] [''ready'', ''b.mp4'']
      [''ready'', ''a_fixed.mp4'']
     = (Inl (ToolFailed 1), sample_ready([''export'', ''a.mp4''] \<mapsto> partial_output))
   \<and> st_size partial_output < MIN_OUTPUT_SIZE
   \<and> (\<exists>fs' known'.
        worker sample_settings True (killed_mid_write [''export'', ''a.mp4''])
          (\<lambda>a. OtherException) (\<lambda>a. 0) sample_auto_output
          [''ready''] [''export''] [''quarantine''] [''ready'', ''b.mp4'']
          sample_ready sample_known [''ready'', ''a.mp4'']
        = Inr (False, [], fs', known')
        \<and> fs' [''export'', ''a.mp4''] = Some partial_output)"
proof -
  have w: "worker sample_settings True (killed_mid_write [''export'', ''a.mp4''])
      (\<lambda>a. OtherException) (\<lambda>a. 0) sample_auto_output
      [''ready''] [''export''] [''quarantine''] [''ready'', ''b.mp4'']
      sample_ready sample_known [''ready'', ''a.mp4'']
    = Inr (False, [], (sample_ready([''export'', ''a.mp4''] \<mapsto> partial_output))
            ([''ready'', ''a.mp4''] := None,
             [''quarantine'', ''a.mp4''] \<mapsto> \<lparr>st_size = 104857600, st_mtime = 1000\<rparr>),
           sample_known)"
    by (simp add: worker_def relative_to_def Let_def sample_auto_output_def
        run_killed_mid_write quarantine_after_partial_write)
  have s: "st_size partial_output < MIN_OUTPUT_SIZE"
    by (simp add: partial_output_def MIN_OUTPUT_SIZE_def)
  show ?thesis using run_killed_mid_write run_fails_mid_write s w by simp
qed

subsection \<open>Reference copy\<close>

text \<open>The reference is never a repair target, and two distinct candidates leave one.\<close>

lemma reference_not_repaired: "reference \<notin> set (files_to_repair candidates reference)"
  by (simp add: files_to_repair_def)



subsection \<open>A scan pass and the reference copy\<close>


















end
